theory Spec2Isabelle
  imports Main "HOL-Library.Log_Nat" "HOL-Library.Word"
begin

section \<open>The OxaPay deposit module (newdepositmethods.py)\<close>

text \<open>
  A shallow embedding of the payment pipeline of \<^verbatim>\<open>newdepositmethods.py\<close>: the webhook
  handler \<^verbatim>\<open>_oxapay_webhook\<close> with \<^verbatim>\<open>_verify_signature\<close>, the invoice request
  \<^verbatim>\<open>OxaPayClient.create_invoice\<close> with its caller \<^verbatim>\<open>oxapay_currency_selected\<close>, and the
  custom amount step \<^verbatim>\<open>oxapay_receive_custom_amount\<close>.

  Conventions.
  \<^item> A Python \<^verbatim>\<open>str\<close> is a HOL \<open>string\<close>. Case conversion, digits and white space are
    those of the ASCII range; Python's tables for characters beyond ASCII are not part of
    the model.
  \<^item> A Python \<^verbatim>\<open>float\<close> is a \<open>pyfloat\<close>: a finite double (held as the rational it
    denotes), an infinity or a NaN. The two zeros are one value; the handler never looks
    at the sign of a zero.
  \<^item> A value read by \<^verbatim>\<open>json.loads\<close> is a \<open>jvalue\<close>; a dict is the list of its items
    in insertion order, looked up by \<open>map_of\<close>.
  \<^item> An exception is a value of \<open>pyerror\<close>; every \<^verbatim>\<open>raise\<close> of the source and of the
    builtins it calls is a branch.
  \<^item> What the handler does to the outside (log lines, the insertion into
    \<^verbatim>\<open>_processed_orders\<close>, the call of \<^verbatim>\<open>_credit\<close>, the call of \<^verbatim>\<open>send_message\<close>) is
    returned as a list of events in program order.
  \<^item> The collaborators of \<^verbatim>\<open>bot.py\<close> (\<^verbatim>\<open>load_user_data_if_missing\<close>,
    \<^verbatim>\<open>credit_wallet_crypto\<close>, \<^verbatim>\<open>format_crypto_amount\<close>) are taken to return normally.
\<close>

subsection \<open>Python values\<close>

datatype pyerror = AttributeError | TypeError | ValueError | OverflowError | JSONDecodeError

datatype pyfloat = Fin rat | PInf | NInf | NaN

datatype jvalue =
    JNull
  | JBool bool
  | JInt int
  | JFloat pyfloat
  | JStr string
  | JArr "jvalue list"
  | JObj "(string \<times> jvalue) list"

type_synonym dict = "(string \<times> jvalue) list"

text \<open>Truth value of an object, as \<^verbatim>\<open>if x:\<close> and \<^verbatim>\<open>x or y\<close> test it.\<close>

fun truthy :: "jvalue \<Rightarrow> bool" where
  "truthy JNull = False"
| "truthy (JBool b) = b"
| "truthy (JInt i) = (i \<noteq> 0)"
| "truthy (JFloat f) = (f \<noteq> Fin 0)"
| "truthy (JStr s) = (s \<noteq> [])"
| "truthy (JArr xs) = (xs \<noteq> [])"
| "truthy (JObj kvs) = (kvs \<noteq> [])"

definition py_or :: "jvalue \<Rightarrow> jvalue \<Rightarrow> jvalue" where
  "py_or a b = (if truthy a then a else b)"

text \<open>\<^verbatim>\<open>d.get(k, default)\<close>; \<^verbatim>\<open>d.get(k)\<close> is \<open>dict_get d k JNull\<close>.\<close>

definition dict_get :: "dict \<Rightarrow> string \<Rightarrow> jvalue \<Rightarrow> jvalue" where
  "dict_get d k dflt = (case map_of d k of None \<Rightarrow> dflt | Some v \<Rightarrow> v)"

subsection \<open>Floats\<close>

fun float_lt :: "pyfloat \<Rightarrow> pyfloat \<Rightarrow> bool" where
  "float_lt NaN y = False"
| "float_lt x NaN = False"
| "float_lt (Fin a) (Fin b) = (a < b)"
| "float_lt (Fin a) PInf = True"
| "float_lt (Fin a) NInf = False"
| "float_lt PInf y = False"
| "float_lt NInf NInf = False"
| "float_lt NInf y = True"

fun float_le :: "pyfloat \<Rightarrow> pyfloat \<Rightarrow> bool" where
  "float_le NaN y = False"
| "float_le x NaN = False"
| "float_le (Fin a) (Fin b) = (a \<le> b)"
| "float_le (Fin a) PInf = True"
| "float_le (Fin a) NInf = False"
| "float_le PInf PInf = True"
| "float_le PInf y = False"
| "float_le NInf y = True"

text \<open>
  Rounding of a rational to the nearest double, ties to even, with gradual underflow; a
  result of magnitude \<open>2 ^ 1024\<close> or more is an infinity.
\<close>

definition pow2 :: "int \<Rightarrow> rat" where
  "pow2 e = (if 0 \<le> e then 2 ^ nat e else 1 / 2 ^ nat (- e))"

definition pow10 :: "int \<Rightarrow> rat" where
  "pow10 e = (if 0 \<le> e then 10 ^ nat e else 1 / 10 ^ nat (- e))"

definition floor_log2 :: "rat \<Rightarrow> int" where
  "floor_log2 a = (case quotient_of a of (n, d) \<Rightarrow>
     (let e = bitlen n - bitlen d in if pow2 e \<le> a then e else e - 1))"

definition round_half_even :: "rat \<Rightarrow> int" where
  "round_half_even x = (let f = \<lfloor>x\<rfloor>; r = x - of_int f in
     if r < 1 / 2 then f else if 1 / 2 < r then f + 1 else if even f then f else f + 1)"

definition round_double :: "rat \<Rightarrow> pyfloat" where
  "round_double q = (if q = 0 then Fin 0 else
     (let a = \<bar>q\<bar>;
          e = max (floor_log2 a) (- 1022);
          ulp = pow2 (e - 52);
          v = of_int (round_half_even (a / ulp)) * ulp
      in if pow2 1024 \<le> v then (if 0 < q then PInf else NInf)
         else Fin (if 0 < q then v else - v)))"

subsection \<open>Strings\<close>

definition is_ascii :: "char \<Rightarrow> bool" where
  "is_ascii c = ((of_char c :: nat) < 128)"

definition is_digit :: "char \<Rightarrow> bool" where
  "is_digit c = (48 \<le> (of_char c :: nat) \<and> (of_char c :: nat) \<le> 57)"

definition digit_val :: "char \<Rightarrow> nat" where
  "digit_val c = of_char c - 48"

definition upper_letters :: string where
  "upper_letters = ''ABCDEFGHIJKLMNOPQRSTUVWXYZ''"

definition lower_letters :: string where
  "lower_letters = ''abcdefghijklmnopqrstuvwxyz''"

definition lower_char :: "char \<Rightarrow> char" where
  "lower_char c = (case map_of (zip upper_letters lower_letters) c of None \<Rightarrow> c | Some l \<Rightarrow> l)"

definition upper_char :: "char \<Rightarrow> char" where
  "upper_char c = (case map_of (zip lower_letters upper_letters) c of None \<Rightarrow> c | Some u \<Rightarrow> u)"

definition str_lower :: "string \<Rightarrow> string" where
  "str_lower s = map lower_char s"

definition str_upper :: "string \<Rightarrow> string" where
  "str_upper s = map upper_char s"

text \<open>\<^verbatim>\<open>x.lower()\<close> and \<^verbatim>\<open>x.upper()\<close> on a JSON value: only a str has the method.\<close>

definition py_lower :: "jvalue \<Rightarrow> pyerror + string" where
  "py_lower x = (case x of JStr s \<Rightarrow> Inr (str_lower s) | _ \<Rightarrow> Inl AttributeError)"

definition py_upper :: "jvalue \<Rightarrow> pyerror + string" where
  "py_upper x = (case x of JStr s \<Rightarrow> Inr (str_upper s) | _ \<Rightarrow> Inl AttributeError)"

text \<open>\<^verbatim>\<open>s.isdigit()\<close> and \<^verbatim>\<open>int(s)\<close> on a string of digits.\<close>

definition str_isdigit :: "string \<Rightarrow> bool" where
  "str_isdigit s = (s \<noteq> [] \<and> list_all is_digit s)"

definition int_of_digits :: "string \<Rightarrow> int" where
  "int_of_digits ds = foldl (\<lambda>n c. 10 * n + int (digit_val c)) 0 ds"

text \<open>White space: what \<^verbatim>\<open>float\<close> strips, and what \<^verbatim>\<open>str.strip\<close> strips.\<close>

definition c_space :: "char \<Rightarrow> bool" where
  "c_space c = (let n = of_char c :: nat in (9 \<le> n \<and> n \<le> 13) \<or> n = 32)"

definition str_space :: "char \<Rightarrow> bool" where
  "str_space c = (let n = of_char c :: nat in (9 \<le> n \<and> n \<le> 13) \<or> (28 \<le> n \<and> n \<le> 32))"

definition strip_with :: "(char \<Rightarrow> bool) \<Rightarrow> string \<Rightarrow> string" where
  "strip_with sp s = rev (dropWhile sp (rev (dropWhile sp s)))"

subsection \<open>The builtin float\<close>

text \<open>
  \<^verbatim>\<open>float(s)\<close> on a string: white space stripped, an optional sign, then \<^verbatim>\<open>inf\<close>,
  \<^verbatim>\<open>infinity\<close> or \<^verbatim>\<open>nan\<close> in any case, or a decimal number: digits, where single
  underscores may stand between digits, an optional point and an optional exponent.
  \<open>None\<close> is \<^verbatim>\<open>ValueError\<close>.
\<close>

definition skip_underscore :: "string \<Rightarrow> string" where
  "skip_underscore cs = (case cs of
       u # d # r \<Rightarrow> if u = CHR ''_'' \<and> is_digit d then d # r else cs
     | _ \<Rightarrow> cs)"

function take_digitpart :: "string \<Rightarrow> string \<times> string" where
  "take_digitpart [] = ([], [])"
| "take_digitpart (c # cs) =
     (if is_digit c
      then (case take_digitpart (skip_underscore cs) of (ds, r) \<Rightarrow> (c # ds, r))
      else ([], c # cs))"
  by pat_completeness auto
termination
  by (relation "measure length") (auto simp: skip_underscore_def split: list.splits)

definition take_sign :: "string \<Rightarrow> bool \<times> string" where
  "take_sign s = (case s of
       c # r \<Rightarrow> if c = CHR ''-'' then (True, r) else if c = CHR ''+'' then (False, r) else (False, s)
     | [] \<Rightarrow> (False, []))"

definition parse_exponent :: "string \<Rightarrow> int option" where
  "parse_exponent r = (case r of
       [] \<Rightarrow> Some 0
     | c # r1 \<Rightarrow>
         if c \<noteq> CHR ''e'' \<and> c \<noteq> CHR ''E'' then None
         else (case take_sign r1 of (neg, r2) \<Rightarrow>
           (case take_digitpart r2 of (ds, r3) \<Rightarrow>
              if ds = [] \<or> r3 \<noteq> [] then None
              else Some (if neg then - int_of_digits ds else int_of_digits ds))))"

definition parse_floatnumber :: "string \<Rightarrow> rat option" where
  "parse_floatnumber s = (case take_digitpart s of (ip, r1) \<Rightarrow>
     (case (case r1 of c # r \<Rightarrow> if c = CHR ''.'' then take_digitpart r else ([], r1)
                     | [] \<Rightarrow> ([], [])) of (fp, r2) \<Rightarrow>
        if ip = [] \<and> fp = [] then None
        else (case parse_exponent r2 of
                None \<Rightarrow> None
              | Some ex \<Rightarrow> Some (of_int (int_of_digits (ip @ fp)) * pow10 (ex - int (length fp))))))"

definition float_of_str :: "string \<Rightarrow> pyfloat option" where
  "float_of_str s0 = (case take_sign (strip_with c_space s0) of (neg, body) \<Rightarrow>
     (let low = str_lower body in
      if low = ''inf'' \<or> low = ''infinity'' then Some (if neg then NInf else PInf)
      else if low = ''nan'' then Some NaN
      else (case parse_floatnumber body of
              None \<Rightarrow> None
            | Some q \<Rightarrow> Some (round_double (if neg then - q else q)))))"

text \<open>\<^verbatim>\<open>float(i)\<close> on an int raises \<^verbatim>\<open>OverflowError\<close> where the nearest double is none.\<close>

definition float_of_int :: "int \<Rightarrow> pyerror + pyfloat" where
  "float_of_int i = (case round_double (of_int i) of Fin q \<Rightarrow> Inr (Fin q) | _ \<Rightarrow> Inl OverflowError)"

fun py_float :: "jvalue \<Rightarrow> pyerror + pyfloat" where
  "py_float (JFloat f) = Inr f"
| "py_float (JInt i) = float_of_int i"
| "py_float (JBool b) = Inr (Fin (if b then 1 else 0))"
| "py_float (JStr s) = (case float_of_str s of None \<Rightarrow> Inl ValueError | Some f \<Rightarrow> Inr f)"
| "py_float JNull = Inl TypeError"
| "py_float (JArr xs) = Inl TypeError"
| "py_float (JObj kvs) = Inl TypeError"

subsection \<open>Signature verification\<close>

text \<open>
  \<^verbatim>\<open>hmac.new(key, msg, hashlib.sha256)\<close> is a parameter: a function from the key and the
  message to the 256 bits of the digest. \<^verbatim>\<open>hexdigest()\<close> writes them as 64 lower-case
  hexadecimal digits. \<^verbatim>\<open>json.dumps(d, separators=(",", ":")).encode()\<close> is a parameter as
  well. Both stand in the record of what the handler reads and does not own, with the
  merchant key of the configuration, the wallets that \<^verbatim>\<open>bot.user_wallets\<close> holds once
  \<^verbatim>\<open>load_user_data_if_missing\<close> has run, and whether \<^verbatim>\<open>send_message\<close> raises.
\<close>

record env =
  OXAPAY_MERCHANT_KEY :: string
  hmac_sha256 :: "string \<Rightarrow> string \<Rightarrow> 256 word"
  json_dumps :: "dict \<Rightarrow> string"
  user_wallets :: "int set"
  send_message_fails :: bool

definition hex_char :: "nat \<Rightarrow> char" where
  "hex_char n = (if n < 10 then char_of (48 + n) else char_of (87 + n))"

definition hexdigest :: "256 word \<Rightarrow> string" where
  "hexdigest w = map (\<lambda>i. hex_char (unat (drop_bit (4 * i) w) mod 16)) (rev [0..<64])"

text \<open>
  \<^verbatim>\<open>hmac.compare_digest(a, b)\<close> with a str \<open>a\<close>: \<^verbatim>\<open>TypeError\<close> unless \<open>b\<close> is a str
  and both are ASCII.
\<close>

definition compare_digest :: "string \<Rightarrow> jvalue \<Rightarrow> pyerror + bool" where
  "compare_digest a b = (case b of
       JStr s \<Rightarrow> if list_all is_ascii a \<and> list_all is_ascii s then Inr (a = s) else Inl TypeError
     | _ \<Rightarrow> Inl TypeError)"

definition verify_signature :: "env \<Rightarrow> string \<Rightarrow> jvalue \<Rightarrow> pyerror + bool" where
  "verify_signature en raw_body received_hmac =
     (let expected = hexdigest (hmac_sha256 en (OXAPAY_MERCHANT_KEY en) raw_body)
      in compare_digest expected received_hmac)"

subsection \<open>The webhook handler\<close>

text \<open>
  A key of the set \<^verbatim>\<open>_processed_orders\<close>: a hashable value up to Python's equality
  (\<^verbatim>\<open>1 == 1.0 == True\<close>). A list or a dict is not hashable. The NaN of \<^verbatim>\<open>json.loads\<close>
  is one object, found in a set by identity.
\<close>

datatype pykey = KNone | KNum rat | KPInf | KNInf | KNaN | KStr string

fun hash_key :: "jvalue \<Rightarrow> pykey option" where
  "hash_key JNull = Some KNone"
| "hash_key (JBool b) = Some (KNum (if b then 1 else 0))"
| "hash_key (JInt i) = Some (KNum (of_int i))"
| "hash_key (JFloat (Fin q)) = Some (KNum q)"
| "hash_key (JFloat PInf) = Some KPInf"
| "hash_key (JFloat NInf) = Some KNInf"
| "hash_key (JFloat NaN) = Some KNaN"
| "hash_key (JStr s) = Some (KStr s)"
| "hash_key (JArr xs) = None"
| "hash_key (JObj kvs) = None"

datatype logmsg =
    WebhookReceived
  | HmacMismatch
  | IgnoringStatus string
  | DuplicateCallback pykey
  | PayAmountSkipped
  | UnrecognisedOrderId
  | Credited
  | UserNotFound
  | NotifyFailed
  | WebhookException pyerror

text \<open>
  \<open>Credit u a c\<close> is the call \<^verbatim>\<open>_credit(u, a, c)\<close>; \<open>SendMessage u a c usd\<close> is the call
  of \<^verbatim>\<open>_bot_ref.send_message\<close> with the "Deposit Confirmed" text for chat \<open>u\<close>.
\<close>

datatype event =
    Log logmsg
  | AddProcessed pykey
  | Credit int pyfloat string
  | SendMessage int pyfloat string pyfloat

fun is_credit :: "event \<Rightarrow> bool" where
  "is_credit (Credit u a c) = True"
| "is_credit e = False"

fun is_add :: "event \<Rightarrow> bool" where
  "is_add (AddProcessed k) = True"
| "is_add e = False"

fun is_send_message :: "event \<Rightarrow> bool" where
  "is_send_message (SendMessage u a c usd) = True"
| "is_send_message e = False"

record state =
  processed_orders :: "pykey set"
  bot_ref :: bool

record payment =
  order_id :: jvalue
  track_id :: jvalue
  amount_usd :: pyfloat
  paid_coin :: string
  pay_amount :: pyfloat

definition accepted_statuses :: "string list" where
  "accepted_statuses = [''paid'', ''confirmed'', ''completed'']"

text \<open>The block "Signature check": \<open>Inr False\<close> is the mismatch that returns.\<close>

definition signature_check :: "env \<Rightarrow> dict \<Rightarrow> pyerror + bool" where
  "signature_check en data =
     (let received_hmac = dict_get data ''hmac'' (JStr '''') in
      if truthy received_hmac
      then (let verify_data = filter (\<lambda>kv. fst kv \<noteq> ''hmac'') data;
                verify_body = json_dumps en verify_data
            in verify_signature en verify_body received_hmac)
      else Inr True)"

text \<open>The block "Extract payment fields".\<close>

definition extract_payment :: "dict \<Rightarrow> pyerror + payment" where
  "extract_payment data =
     (case py_float (dict_get data ''amount'' (JInt 0)) of
        Inl e \<Rightarrow> Inl e
      | Inr amount \<Rightarrow>
     (case py_upper (dict_get data ''currency'' (JStr ''USDT'')) of
        Inl e \<Rightarrow> Inl e
      | Inr coin \<Rightarrow>
     (let raw_pay = dict_get data ''payAmount'' JNull;
          raw_pay = (if raw_pay = JNull then dict_get data ''pay_amount'' JNull else raw_pay)
      in case (if raw_pay \<noteq> JNull then py_float raw_pay else Inr amount) of
           Inl e \<Rightarrow> Inl e
         | Inr pay \<Rightarrow>
             Inr \<lparr>order_id = dict_get data ''orderId'' (JStr ''''),
                  track_id = dict_get data ''trackId'' (JStr ''''),
                  amount_usd = amount, paid_coin = coin, pay_amount = pay\<rparr>)))"

text \<open>
  \<^verbatim>\<open>order_id.split("_")[0] if "_" in order_id else ""\<close>: the test \<^verbatim>\<open>in\<close> raises on a
  value that is no container, and only a str has \<^verbatim>\<open>split\<close>.
\<close>

fun order_prefix :: "jvalue \<Rightarrow> pyerror + string" where
  "order_prefix (JStr s) =
     Inr (if CHR ''_'' \<in> set s then takeWhile (\<lambda>c. c \<noteq> CHR ''_'') s else [])"
| "order_prefix (JArr xs) = (if JStr ''_'' \<in> set xs then Inl AttributeError else Inr [])"
| "order_prefix (JObj kvs) = (if ''_'' \<in> set (map fst kvs) then Inl AttributeError else Inr [])"
| "order_prefix v = Inl TypeError"

text \<open>The block "Resolve Telegram user": \<open>Inr None\<close> is the unrecognised order id.\<close>

definition resolve_telegram_id :: "jvalue \<Rightarrow> pyerror + int option" where
  "resolve_telegram_id oid = (case order_prefix oid of
       Inl e \<Rightarrow> Inl e
     | Inr tg_str \<Rightarrow> Inr (if str_isdigit tg_str then Some (int_of_digits tg_str) else None))"

text \<open>The blocks "Credit wallet" and "Notify user", for a resolved user.\<close>

definition credit_and_notify :: "env \<Rightarrow> state \<Rightarrow> payment \<Rightarrow> int \<Rightarrow> event list" where
  "credit_and_notify en st p telegram_id =
     (if telegram_id \<in> user_wallets en
      then [Credit telegram_id (pay_amount p) (paid_coin p), Log Credited]
      else [Log UserNotFound])
     @ (if bot_ref st
        then SendMessage telegram_id (pay_amount p) (paid_coin p) (amount_usd p)
             # (if send_message_fails en then [Log NotifyFailed] else [])
        else [])"

text \<open>
  From the block "Duplicate guard" to the end of the \<^verbatim>\<open>try\<close>. The result is the state,
  the events and the exception that left the block, if one did.
\<close>

definition dedup_key :: "payment \<Rightarrow> jvalue" where
  "dedup_key p = py_or (order_id p) (track_id p)"

definition guard_and_credit :: "env \<Rightarrow> state \<Rightarrow> payment \<Rightarrow> state \<times> event list \<times> pyerror option" where
  "guard_and_credit en st p =
     (case hash_key (dedup_key p) of
        None \<Rightarrow> (st, [], Some TypeError)
      | Some k \<Rightarrow>
          if k \<in> processed_orders st then (st, [Log (DuplicateCallback k)], None)
          else (let st' = st\<lparr>processed_orders := insert k (processed_orders st)\<rparr> in
            if float_le (pay_amount p) (Fin 0)
            then (st', [AddProcessed k, Log PayAmountSkipped], None)
            else (case resolve_telegram_id (order_id p) of
                    Inl e \<Rightarrow> (st', [AddProcessed k], Some e)
                  | Inr None \<Rightarrow> (st', [AddProcessed k, Log UnrecognisedOrderId], None)
                  | Inr (Some telegram_id) \<Rightarrow>
                      (st', AddProcessed k # credit_and_notify en st' p telegram_id, None))))"

text \<open>The body of the \<^verbatim>\<open>try\<close> after \<^verbatim>\<open>json.loads\<close> gave a dict.\<close>

definition handle_payload :: "env \<Rightarrow> state \<Rightarrow> dict \<Rightarrow> state \<times> event list \<times> pyerror option" where
  "handle_payload en st data =
     (case signature_check en data of
        Inl e \<Rightarrow> (st, [], Some e)
      | Inr False \<Rightarrow> (st, [Log HmacMismatch], None)
      | Inr True \<Rightarrow>
     (case py_lower (dict_get data ''status'' (JStr '''')) of
        Inl e \<Rightarrow> (st, [], Some e)
      | Inr status \<Rightarrow>
          if status \<notin> set accepted_statuses then (st, [Log (IgnoringStatus status)], None)
          else (case extract_payment data of
                  Inl e \<Rightarrow> (st, [], Some e)
                | Inr p \<Rightarrow> guard_and_credit en st p)))"

text \<open>
  The handler. The request is what \<^verbatim>\<open>json.loads\<close> made of the body: \<open>None\<close> where it
  raised. A value that is no dict has no \<^verbatim>\<open>get\<close>. Every exception ends in the outer
  \<^verbatim>\<open>except\<close>, which logs it; the response is \<^verbatim>\<open>ok\<close> with status 200 on every path.
\<close>

definition oxapay_webhook :: "env \<Rightarrow> state \<Rightarrow> jvalue option \<Rightarrow> state \<times> event list" where
  "oxapay_webhook en st req = (case req of
       None \<Rightarrow> (st, [Log (WebhookException JSONDecodeError)])
     | Some (JObj data) \<Rightarrow>
         (case handle_payload en st data of (st', evs, err) \<Rightarrow>
            (st', Log WebhookReceived # evs @
                  (case err of None \<Rightarrow> [] | Some e \<Rightarrow> [Log (WebhookException e)])))
     | Some v \<Rightarrow> (st, [Log WebhookReceived, Log (WebhookException AttributeError)]))"

subsection \<open>Runs of deliveries\<close>

text \<open>
  The key a delivery carries, as the handler computes it: \<^verbatim>\<open>order_id or track_id\<close>. Between
  the membership test and the call of \<^verbatim>\<open>_credit\<close> the coroutine has no \<^verbatim>\<open>await\<close>, so
  that deliveries act on the set one after the other; a run handles a list of deliveries
  in the order in which they reach the guard, each with the environment it meets.
\<close>

definition request_key :: "jvalue option \<Rightarrow> pykey option" where
  "request_key req = (case req of
       Some (JObj data) \<Rightarrow>
         hash_key (py_or (dict_get data ''orderId'' (JStr [])) (dict_get data ''trackId'' (JStr [])))
     | _ \<Rightarrow> None)"

fun deliver_all :: "state \<Rightarrow> (env \<times> jvalue option) list \<Rightarrow> state \<times> event list list" where
  "deliver_all st [] = (st, [])"
| "deliver_all st (d # ds) =
     (case oxapay_webhook (fst d) st (snd d) of (st', evs) \<Rightarrow>
        (case deliver_all st' ds of (st'', evss) \<Rightarrow> (st'', evs # evss)))"

definition credits_with_key :: "pykey \<Rightarrow> (env \<times> jvalue option) list \<Rightarrow> event list list \<Rightarrow> nat" where
  "credits_with_key k ds evss =
     sum_list (map (\<lambda>(d, evs). if request_key (snd d) = Some k then length (filter is_credit evs) else 0)
                   (zip ds evss))"

definition insertions_of :: "pykey \<Rightarrow> event list list \<Rightarrow> nat" where
  "insertions_of k evss = count_list (concat evss) (AddProcessed k)"

definition insert_before_credit :: "jvalue option \<Rightarrow> event list \<Rightarrow> bool" where
  "insert_before_credit req evs = (case request_key req of
       None \<Rightarrow> \<not> list_ex is_credit evs
     | Some k \<Rightarrow> \<not> list_ex is_credit (takeWhile (\<lambda>e. e \<noteq> AddProcessed k) evs))"

subsection \<open>The order reference\<close>

text \<open>
  \<^verbatim>\<open>order_id = f"{user_id}_{int(datetime.now(timezone.utc).timestamp())}"\<close> in
  \<^verbatim>\<open>oxapay_currency_selected\<close>: the decimal forms of two ints around an underscore.
\<close>

definition digit_char :: "nat \<Rightarrow> char" where
  "digit_char n = ''0123456789'' ! n"

function digits_of :: "nat \<Rightarrow> string" where
  "digits_of n = (if n < 10 then [digit_char n] else digits_of (n div 10) @ [digit_char (n mod 10)])"
  by pat_completeness auto
termination
  by (relation "measure id") auto

definition str_of_int :: "int \<Rightarrow> string" where
  "str_of_int i = (if i < 0 then CHR ''-'' # digits_of (nat (- i)) else digits_of (nat i))"

definition order_reference :: "int \<Rightarrow> int \<Rightarrow> string" where
  "order_reference user_id timestamp = str_of_int user_id @ ''_'' @ str_of_int timestamp"

subsection \<open>Invoice creation\<close>

text \<open>
  What one POST to the invoice endpoint comes to: an exception of the transport
  (\<^verbatim>\<open>asyncio.TimeoutError\<close>, \<^verbatim>\<open>aiohttp.ClientError\<close>, any other), or a response with its
  status and what \<^verbatim>\<open>resp.json()\<close> makes of its body (\<open>None\<close> where that raises). The
  network is a function from the number of requests sent before to the outcome of the
  next one; \<^verbatim>\<open>create_invoice\<close> returns its result and the number of requests sent.
\<close>

datatype http_outcome = TimeoutError | ClientError | OtherException | Response nat "jvalue option"

text \<open>\<^verbatim>\<open>x == 100\<close> on a JSON value.\<close>

fun py_eq_100 :: "jvalue \<Rightarrow> bool" where
  "py_eq_100 (JInt i) = (i = 100)"
| "py_eq_100 (JFloat f) = (f = Fin 100)"
| "py_eq_100 v = False"

definition create_invoice :: "(nat \<Rightarrow> http_outcome) \<Rightarrow> nat \<Rightarrow> dict option \<times> nat" where
  "create_invoice post n =
     ((case post n of
         Response status body \<Rightarrow>
           if status \<noteq> 200 then None
           else (case body of
                   Some (JObj data) \<Rightarrow>
                     if py_eq_100 (dict_get data ''result'' JNull) then Some data else None
                 | _ \<Rightarrow> None)
       | _ \<Rightarrow> None),
      Suc n)"

datatype conv_state = END | STATE_AMOUNT | STATE_CURRENCY | STATE_CUSTOM

datatype screen =
    NotForYou
  | UnsupportedCurrency
  | FailedToCreateInvoice
  | NoPaymentLink
  | InvoiceReady jvalue
  | InvalidAmount
  | CurrencySelector pyfloat

definition OXAPAY_SUPPORTED_CURRENCIES :: "string list" where
  "OXAPAY_SUPPORTED_CURRENCIES = [''BTC'', ''ETH'', ''USDT'', ''LTC'', ''TRX'', ''BNB'', ''SOL'']"

text \<open>\<^verbatim>\<open>s.replace(pat, "")\<close> for a pattern that is not empty.\<close>

function remove_all :: "string \<Rightarrow> string \<Rightarrow> string" where
  "remove_all pat [] = []"
| "remove_all pat (c # cs) =
     (if pat \<noteq> [] \<and> take (length pat) (c # cs) = pat
      then remove_all pat (drop (length pat) (c # cs))
      else c # remove_all pat cs)"
  by pat_completeness auto
termination
  by (relation "measure (\<lambda>(pat, s). length s)") auto

text \<open>
  \<^verbatim>\<open>result.get("payLink") or result.get("payUrl") or result.get("link", "")\<close>.
\<close>

definition pay_link_of :: "dict \<Rightarrow> jvalue" where
  "pay_link_of result =
     py_or (dict_get result ''payLink'' JNull)
       (py_or (dict_get result ''payUrl'' JNull) (dict_get result ''link'' (JStr [])))"

text \<open>
  \<^verbatim>\<open>oxapay_currency_selected\<close>, from the answer of \<^verbatim>\<open>_check_ownership\<close> and the callback
  data: the next state of the conversation, the screen shown, and the number of requests
  sent. The amounts shown on the invoice screen are not part of the model.
\<close>

definition oxapay_currency_selected ::
    "(nat \<Rightarrow> http_outcome) \<Rightarrow> nat \<Rightarrow> bool \<Rightarrow> string \<Rightarrow> (conv_state \<times> screen) \<times> nat" where
  "oxapay_currency_selected post n owner query_data =
     (if \<not> owner then ((END, NotForYou), n)
      else (let coin = str_upper (remove_all ''oxapay_cur_'' query_data) in
        if coin \<notin> set OXAPAY_SUPPORTED_CURRENCIES then ((STATE_CURRENCY, UnsupportedCurrency), n)
        else (case create_invoice post n of (result, n') \<Rightarrow>
          (case result of
             None \<Rightarrow> ((END, FailedToCreateInvoice), n')
           | Some r \<Rightarrow>
               (let pay_link = pay_link_of r in
                if \<not> truthy pay_link then ((END, NoPaymentLink), n')
                else ((END, InvoiceReady pay_link), n'))))))"

text \<open>
  Success of an invoice request in the words of the specification: status 200, the result
  code 100, and a payment link under one of the accepted names.
\<close>

definition invoice_succeeds :: "http_outcome \<Rightarrow> bool" where
  "invoice_succeeds out = (case out of
       Response status (Some (JObj data)) \<Rightarrow>
         status = 200 \<and> py_eq_100 (dict_get data ''result'' JNull) \<and>
         (truthy (dict_get data ''payLink'' JNull) \<or> truthy (dict_get data ''payUrl'' JNull) \<or>
          truthy (dict_get data ''link'' JNull))
     | _ \<Rightarrow> False)"

subsection \<open>The custom amount\<close>

text \<open>
  \<^verbatim>\<open>oxapay_receive_custom_amount\<close>, from the minimum of the configuration, the two keys of
  \<^verbatim>\<open>context.user_data\<close> and the text of the message: the next state, the screen, and the
  user data. The screen of \<^verbatim>\<open>_show_currency_selector\<close> shows the amount just stored.
\<close>

definition OXAPAY_MIN_DEPOSIT_USD :: pyfloat where
  "OXAPAY_MIN_DEPOSIT_USD = Fin 5"

record user_data =
  oxapay_usd_amount :: "pyfloat option"
  oxapay_awaiting_custom :: bool

definition oxapay_receive_custom_amount ::
    "pyfloat \<Rightarrow> user_data \<Rightarrow> string option \<Rightarrow> conv_state \<times> screen \<times> user_data" where
  "oxapay_receive_custom_amount min_deposit ud message_text =
     (let text = strip_with str_space (case message_text of None \<Rightarrow> [] | Some t \<Rightarrow> t) in
      case float_of_str (filter (\<lambda>c. c \<noteq> CHR '','') text) of
        None \<Rightarrow> (STATE_CUSTOM, InvalidAmount, ud)
      | Some amount \<Rightarrow>
          if float_lt amount min_deposit then (STATE_CUSTOM, InvalidAmount, ud)
          else (STATE_CURRENCY, CurrencySelector amount,
                ud\<lparr>oxapay_usd_amount := Some amount, oxapay_awaiting_custom := False\<rparr>))"

subsection \<open>Sample data\<close>

text \<open>
  An environment with the given digest and serialisation functions and the given wallets,
  and the state of the module once \<^verbatim>\<open>start_oxapay_webhook\<close> has set \<^verbatim>\<open>_bot_ref\<close>.
\<close>

definition sample_env :: "(string \<Rightarrow> string \<Rightarrow> 256 word) \<Rightarrow> (dict \<Rightarrow> string) \<Rightarrow> int set \<Rightarrow> env" where
  "sample_env h d ws = \<lparr>OXAPAY_MERCHANT_KEY = ''merchant-key'', hmac_sha256 = h, json_dumps = d,
     user_wallets = ws, send_message_fails = False\<rparr>"

definition started :: state where
  "started = \<lparr>processed_orders = {}, bot_ref = True\<rparr>"

text \<open>
  The payload of a payment by user 12345: an invoice of 50.0 USD paid with 0.5 BTC.
\<close>

definition sample_payload :: "string \<Rightarrow> dict" where
  "sample_payload status =
     [(''status'', JStr status), (''orderId'', JStr ''12345_1700000000''),
      (''amount'', JFloat (Fin 50)), (''payAmount'', JFloat (Fin (1 / 2))),
      (''currency'', JStr ''BTC'')]"

text \<open>
  A network whose first request times out, whose second is answered with a payment link,
  whose third is answered without one, and which fails from then on.
\<close>

definition sample_post :: "nat \<Rightarrow> http_outcome" where
  "sample_post i = (if i = 0 then TimeoutError
     else if i = 1 then Response 200 (Some (JObj [(''result'', JInt 100), (''payUrl'', JStr ''https://pay.example/i/1'')]))
     else if i = 2 then Response 200 (Some (JObj [(''result'', JInt 100), (''trackId'', JStr ''77'')]))
     else Response 500 None)"

section \<open>Properties\<close>

subsection \<open>Auxiliary facts\<close>

lemmas webhook_defs =
  oxapay_webhook_def handle_payload_def guard_and_credit_def credit_and_notify_def
  resolve_telegram_id_def extract_payment_def signature_check_def dedup_key_def
  dict_get_def py_or_def py_lower_def py_upper_def str_lower_def str_upper_def
  lower_char_def upper_char_def lower_letters_def upper_letters_def
  accepted_statuses_def str_isdigit_def is_digit_def
  int_of_digits_def digit_val_def sample_env_def started_def sample_payload_def

lemma length_hexdigest: "length (hexdigest w) = 64"
  by (simp add: hexdigest_def)

lemma is_ascii_hex_char: "n < 16 \<Longrightarrow> is_ascii (hex_char n)"
  by (simp add: hex_char_def is_ascii_def)

lemma ascii_hexdigest: "list_all is_ascii (hexdigest w)"
  by (simp add: hexdigest_def list_all_iff is_ascii_hex_char)

lemma verify_empty_signature: "verify_signature en body (JStr []) = Inr False"
proof -
  have "hexdigest (hmac_sha256 en (OXAPAY_MERCHANT_KEY en) body) \<noteq> []"
    using length_hexdigest [of "hmac_sha256 en (OXAPAY_MERCHANT_KEY en) body"] by auto
  then show ?thesis
    by (simp add: verify_signature_def compare_digest_def ascii_hexdigest)
qed

lemma verify_true_length:
  "verify_signature en body h = Inr True \<Longrightarrow> \<exists>s. h = JStr s \<and> length s = 64"
  by (cases h)
    (auto simp: verify_signature_def compare_digest_def Let_def length_hexdigest split: if_splits)

lemma extract_payment_ids:
  "extract_payment data = Inr p \<Longrightarrow>
     order_id p = dict_get data ''orderId'' (JStr []) \<and>
     track_id p = dict_get data ''trackId'' (JStr [])"
  by (auto simp: extract_payment_def Let_def split: sum.splits if_splits)

lemma map_of_filter_key:
  "map_of (filter (\<lambda>kv. fst kv \<noteq> a) xs) k = (if k = a then None else map_of xs k)"
  by (induction xs) auto

lemma dict_get_filter_key:
  "k \<noteq> a \<Longrightarrow> dict_get (filter (\<lambda>kv. fst kv \<noteq> a) xs) k dflt = dict_get xs k dflt"
  by (simp add: dict_get_def map_of_filter_key)

lemma credit_and_notify_lib:
  "credit_and_notify (en\<lparr>hmac_sha256 := h, json_dumps := d\<rparr>) st p u = credit_and_notify en st p u"
  by (simp add: credit_and_notify_def)

lemma guard_and_credit_lib:
  "guard_and_credit (en\<lparr>hmac_sha256 := h, json_dumps := d\<rparr>) st p = guard_and_credit en st p"
  by (simp add: guard_and_credit_def credit_and_notify_lib Let_def split: option.splits sum.splits)

text \<open>What a delivery does once the signature and the status have let it through.\<close>

lemma handle_payload_passed:
  assumes "signature_check en data = Inr True"
    and "py_lower (dict_get data ''status'' (JStr [])) = Inr s"
    and "s \<in> set accepted_statuses"
    and "extract_payment data = Inr p"
  shows "handle_payload en st data = guard_and_credit en st p"
  using assms by (simp add: handle_payload_def)

lemma guard_and_credit_credits:
  assumes "hash_key (dedup_key p) = Some k"
    and "k \<notin> processed_orders st"
    and "\<not> float_le (pay_amount p) (Fin 0)"
    and "resolve_telegram_id (order_id p) = Inr (Some u)"
    and "u \<in> user_wallets en"
  shows "guard_and_credit en st p =
     (st\<lparr>processed_orders := insert k (processed_orders st)\<rparr>,
      AddProcessed k # Credit u (pay_amount p) (paid_coin p) # Log Credited #
        (if bot_ref st
         then SendMessage u (pay_amount p) (paid_coin p) (amount_usd p)
              # (if send_message_fails en then [Log NotifyFailed] else [])
         else []),
      None)"
  using assms by (simp add: guard_and_credit_def credit_and_notify_def)

text \<open>A delivery that stops before the duplicate guard leaves no trace but log lines.\<close>

lemma handle_payload_stopped:
  assumes "signature_check en data \<noteq> Inr True \<or>
           py_lower (dict_get data ''status'' (JStr [])) \<notin> Inr ` set accepted_statuses"
  shows "fst (handle_payload en st data) = st \<and>
         \<not> list_ex is_credit (fst (snd (handle_payload en st data))) \<and>
         \<not> list_ex is_add (fst (snd (handle_payload en st data))) \<and>
         \<not> list_ex is_send_message (fst (snd (handle_payload en st data)))"
  using assms by (auto simp: handle_payload_def split: sum.splits bool.splits)

lemma webhook_stopped:
  assumes "signature_check en data \<noteq> Inr True \<or>
           py_lower (dict_get data ''status'' (JStr [])) \<notin> Inr ` set accepted_statuses"
  shows "fst (oxapay_webhook en st (Some (JObj data))) = st \<and>
         \<not> list_ex is_credit (snd (oxapay_webhook en st (Some (JObj data)))) \<and>
         \<not> list_ex is_add (snd (oxapay_webhook en st (Some (JObj data)))) \<and>
         \<not> list_ex is_send_message (snd (oxapay_webhook en st (Some (JObj data))))"
  using handle_payload_stopped [OF assms, of st]
  by (cases "handle_payload en st data") (auto simp: oxapay_webhook_def split: option.splits)

subsection \<open>The status test\<close>

text \<open>
  C4, as amended. A delivery whose status, put to lower case as the handler does, is none
  of \<^verbatim>\<open>paid\<close>, \<^verbatim>\<open>confirmed\<close>, \<^verbatim>\<open>completed\<close> (a status that is no string has no lower
  case and is among them) credits nothing and leaves the processed-order set as it was.
\<close>

theorem unaccepted_status_no_credit:
  assumes "py_lower (dict_get data ''status'' (JStr [])) \<notin> Inr ` set accepted_statuses"
  shows "fst (oxapay_webhook en st (Some (JObj data))) = st \<and>
         \<not> list_ex is_credit (snd (oxapay_webhook en st (Some (JObj data))))"
  using webhook_stopped [of en data st] assms by simp

theorem unaccepted_status_no_credit_witness:
  "\<forall>h d. py_lower (dict_get (sample_payload ''Waiting'') ''status'' (JStr []))
           \<notin> Inr ` set accepted_statuses \<and>
         oxapay_webhook (sample_env h d {12345}) started (Some (JObj (sample_payload ''Waiting''))) =
         (started, [Log WebhookReceived, Log (IgnoringStatus ''waiting'')])"
proof (intro allI)
  fix h d
  let ?data = "sample_payload ''Waiting''"
  have a: "py_lower (dict_get ?data ''status'' (JStr [])) \<notin> Inr ` set accepted_statuses"
    by (auto simp: webhook_defs)
  have b: "snd (oxapay_webhook (sample_env h d {12345}) started (Some (JObj ?data))) =
             [Log WebhookReceived, Log (IgnoringStatus ''waiting'')]"
    by (simp add: webhook_defs)
  from unaccepted_status_no_credit [OF a, of "sample_env h d {12345}" started] a b
  show "py_lower (dict_get ?data ''status'' (JStr [])) \<notin> Inr ` set accepted_statuses \<and>
        oxapay_webhook (sample_env h d {12345}) started (Some (JObj ?data)) =
         (started, [Log WebhookReceived, Log (IgnoringStatus ''waiting'')])"
    by (simp add: prod_eq_iff)
qed

text \<open>
  C4, as stated, fails: the status \<^verbatim>\<open>PAID\<close> is not one of the three strings, and the
  delivery is credited, whatever the digest and serialisation functions are.
\<close>

theorem upper_case_status_counterexample:
  "\<forall>h d. ''PAID'' \<notin> {''paid'', ''confirmed'', ''completed''} \<and>
     snd (oxapay_webhook (sample_env h d {12345}) started (Some (JObj (sample_payload ''PAID'')))) =
     [Log WebhookReceived, AddProcessed (KStr ''12345_1700000000''),
      Credit 12345 (Fin (1 / 2)) ''BTC'', Log Credited,
      SendMessage 12345 (Fin (1 / 2)) ''BTC'' (Fin 50)]"
  by (simp add: webhook_defs)

text \<open>
  C10. A delivery whose status becomes an accepted one in lower case passes the status
  test: it is handled as the duplicate guard and the crediting block handle its payment,
  and where these credit (a new key, a positive amount, a resolved user with a wallet) the
  wallet is credited.
\<close>

theorem status_case_insensitive:
  assumes "dict_get data ''status'' (JStr []) = JStr s"
    and "str_lower s \<in> set accepted_statuses"
    and "signature_check en data = Inr True"
    and "extract_payment data = Inr p"
    and "hash_key (dedup_key p) = Some k"
    and "k \<notin> processed_orders st"
    and "\<not> float_le (pay_amount p) (Fin 0)"
    and "resolve_telegram_id (order_id p) = Inr (Some u)"
    and "u \<in> user_wallets en"
  shows "handle_payload en st data = guard_and_credit en st p \<and>
         Credit u (pay_amount p) (paid_coin p) \<in> set (snd (oxapay_webhook en st (Some (JObj data))))"
proof -
  have low: "py_lower (dict_get data ''status'' (JStr [])) = Inr (str_lower s)"
    using assms(1) by (simp add: py_lower_def)
  have passed: "handle_payload en st data = guard_and_credit en st p"
    using handle_payload_passed [OF assms(3) low assms(2) assms(4)] .
  moreover have "Credit u (pay_amount p) (paid_coin p)
      \<in> set (snd (oxapay_webhook en st (Some (JObj data))))"
    by (simp add: oxapay_webhook_def passed
        guard_and_credit_credits [OF assms(5) assms(6) assms(7) assms(8) assms(9)])
  ultimately show ?thesis by simp
qed

theorem status_case_insensitive_witness:
  "\<forall>h d. str_lower ''Confirmed'' \<in> set accepted_statuses \<and>
     Credit 12345 (Fin (1 / 2)) ''BTC''
       \<in> set (snd (oxapay_webhook (sample_env h d {12345}) started
                 (Some (JObj (sample_payload ''Confirmed'')))))"
proof (intro allI)
  fix h d
  let ?data = "sample_payload ''Confirmed''"
  let ?p = "\<lparr>order_id = JStr ''12345_1700000000'', track_id = JStr [], amount_usd = Fin 50,
             paid_coin = ''BTC'', pay_amount = Fin (1 / 2)\<rparr>"
  have 1: "dict_get ?data ''status'' (JStr []) = JStr ''Confirmed''" by (simp add: webhook_defs)
  have 2: "str_lower ''Confirmed'' \<in> set accepted_statuses" by (simp add: webhook_defs)
  have 3: "signature_check (sample_env h d {12345}) ?data = Inr True" by (simp add: webhook_defs)
  have 4: "extract_payment ?data = Inr ?p" by (simp add: webhook_defs)
  have 5: "hash_key (dedup_key ?p) = Some (KStr ''12345_1700000000'')" by (simp add: webhook_defs)
  have 6: "KStr ''12345_1700000000'' \<notin> processed_orders started" by (simp add: webhook_defs)
  have 7: "\<not> float_le (pay_amount ?p) (Fin 0)" by simp
  have 8: "resolve_telegram_id (order_id ?p) = Inr (Some 12345)" by (simp add: webhook_defs)
  have 9: "12345 \<in> user_wallets (sample_env h d {12345})" by (simp add: webhook_defs)
  from status_case_insensitive [OF 1 2 3 4 5 6 7 8 9] 2
  show "str_lower ''Confirmed'' \<in> set accepted_statuses \<and>
     Credit 12345 (Fin (1 / 2)) ''BTC''
       \<in> set (snd (oxapay_webhook (sample_env h d {12345}) started (Some (JObj ?data))))"
    by simp
qed

subsection \<open>The signature test\<close>

text \<open>
  C8. A payload whose \<^verbatim>\<open>hmac\<close> field is the empty string is not verified at all: the
  signature block lets it through, the handler does what it does on the same payload
  without the field, and no digest or serialisation function has a say in the result.
\<close>

theorem empty_hmac_skips_verification:
  assumes "map_of data ''hmac'' = Some (JStr [])"
  shows "signature_check en data = Inr True \<and>
         oxapay_webhook en st (Some (JObj data)) =
           oxapay_webhook en st (Some (JObj (filter (\<lambda>kv. fst kv \<noteq> ''hmac'') data))) \<and>
         oxapay_webhook (en\<lparr>hmac_sha256 := h, json_dumps := d\<rparr>) st (Some (JObj data)) =
           oxapay_webhook en st (Some (JObj data))"
proof -
  let ?rest = "filter (\<lambda>kv. fst kv \<noteq> ''hmac'') data"
  let ?en = "en\<lparr>hmac_sha256 := h, json_dumps := d\<rparr>"
  have sig: "signature_check e data = Inr True" for e
    using assms by (simp add: signature_check_def dict_get_def)
  have sig_rest: "signature_check en ?rest = Inr True"
    by (simp add: signature_check_def dict_get_def map_of_filter_key)
  have status: "dict_get ?rest ''status'' (JStr []) = dict_get data ''status'' (JStr [])"
    by (simp add: dict_get_filter_key)
  have g: "dict_get ?rest ''amount'' (JInt 0) = dict_get data ''amount'' (JInt 0)"
    "dict_get ?rest ''currency'' (JStr ''USDT'') = dict_get data ''currency'' (JStr ''USDT'')"
    "dict_get ?rest ''payAmount'' JNull = dict_get data ''payAmount'' JNull"
    "dict_get ?rest ''pay_amount'' JNull = dict_get data ''pay_amount'' JNull"
    "dict_get ?rest ''orderId'' (JStr []) = dict_get data ''orderId'' (JStr [])"
    "dict_get ?rest ''trackId'' (JStr []) = dict_get data ''trackId'' (JStr [])"
    by (simp_all add: dict_get_filter_key)
  have fields: "extract_payment ?rest = extract_payment data"
    unfolding extract_payment_def g by (rule refl)
  have "handle_payload en st ?rest = handle_payload en st data"
    unfolding handle_payload_def sig sig_rest status fields by (rule refl)
  moreover have "handle_payload ?en st data = handle_payload en st data"
    by (simp add: handle_payload_def sig guard_and_credit_lib split: sum.splits)
  ultimately show ?thesis
    by (simp add: oxapay_webhook_def sig)
qed

theorem empty_hmac_skips_verification_witness:
  "\<forall>h d. map_of ((''hmac'', JStr []) # sample_payload ''paid'') ''hmac'' = Some (JStr []) \<and>
     signature_check (sample_env h d {12345}) ((''hmac'', JStr []) # sample_payload ''paid'') = Inr True \<and>
     snd (oxapay_webhook (sample_env h d {12345}) started
            (Some (JObj ((''hmac'', JStr []) # sample_payload ''paid'')))) =
     [Log WebhookReceived, AddProcessed (KStr ''12345_1700000000''),
      Credit 12345 (Fin (1 / 2)) ''BTC'', Log Credited,
      SendMessage 12345 (Fin (1 / 2)) ''BTC'' (Fin 50)]"
proof (intro allI)
  fix h d
  let ?data = "(''hmac'', JStr []) # sample_payload ''paid''"
  have a: "map_of ?data ''hmac'' = Some (JStr [])" by simp
  have b: "filter (\<lambda>kv. fst kv \<noteq> ''hmac'') ?data = sample_payload ''paid''"
    by (simp add: sample_payload_def)
  have c: "snd (oxapay_webhook (sample_env h d {12345}) started (Some (JObj (sample_payload ''paid'')))) =
     [Log WebhookReceived, AddProcessed (KStr ''12345_1700000000''),
      Credit 12345 (Fin (1 / 2)) ''BTC'', Log Credited,
      SendMessage 12345 (Fin (1 / 2)) ''BTC'' (Fin 50)]"
    by (simp add: webhook_defs)
  from empty_hmac_skips_verification [OF a, where en = "sample_env h d {12345}" and st = started] a b c
  show "map_of ?data ''hmac'' = Some (JStr []) \<and>
     signature_check (sample_env h d {12345}) ?data = Inr True \<and>
     snd (oxapay_webhook (sample_env h d {12345}) started (Some (JObj ?data))) =
     [Log WebhookReceived, AddProcessed (KStr ''12345_1700000000''),
      Credit 12345 (Fin (1 / 2)) ''BTC'', Log Credited,
      SendMessage 12345 (Fin (1 / 2)) ''BTC'' (Fin 50)]"
    by simp
qed

text \<open>
  C2, as amended. A delivery whose \<^verbatim>\<open>hmac\<close> value counts as true (a string that is not
  empty, a number other than zero, ...) and does not verify against the digest of the
  payload without that field, keyed by the merchant key, credits nothing and records no
  key. Not verifying includes the \<^verbatim>\<open>TypeError\<close> of \<^verbatim>\<open>compare_digest\<close>.
\<close>

theorem invalid_signature_no_effect:
  assumes "truthy (dict_get data ''hmac'' (JStr []))"
    and "verify_signature en (json_dumps en (filter (\<lambda>kv. fst kv \<noteq> ''hmac'') data))
           (dict_get data ''hmac'' (JStr [])) \<noteq> Inr True"
  shows "fst (oxapay_webhook en st (Some (JObj data))) = st \<and>
         \<not> list_ex is_credit (snd (oxapay_webhook en st (Some (JObj data)))) \<and>
         \<not> list_ex is_add (snd (oxapay_webhook en st (Some (JObj data))))"
proof -
  have "signature_check en data \<noteq> Inr True"
    using assms by (simp add: signature_check_def)
  then show ?thesis
    using webhook_stopped [of en data st] by simp
qed

theorem invalid_signature_no_effect_witness:
  "\<forall>h d. truthy (dict_get ((''hmac'', JStr ''deadbeef'') # sample_payload ''paid'') ''hmac'' (JStr [])) \<and>
     oxapay_webhook (sample_env h d {12345}) started
        (Some (JObj ((''hmac'', JStr ''deadbeef'') # sample_payload ''paid''))) =
     (started, [Log WebhookReceived, Log HmacMismatch])"
proof (intro allI)
  fix h d
  let ?data = "(''hmac'', JStr ''deadbeef'') # sample_payload ''paid''"
  let ?en = "sample_env h d {12345}"
  have a: "truthy (dict_get ?data ''hmac'' (JStr []))" by (simp add: dict_get_def)
  have v: "verify_signature ?en (json_dumps ?en (filter (\<lambda>kv. fst kv \<noteq> ''hmac'') ?data))
             (JStr ''deadbeef'') = Inr False"
    using length_hexdigest [of "h ''merchant-key'' (d (sample_payload ''paid''))"]
    by (auto simp: verify_signature_def compare_digest_def ascii_hexdigest sample_env_def
        sample_payload_def is_ascii_def)
  then have b: "verify_signature ?en (json_dumps ?en (filter (\<lambda>kv. fst kv \<noteq> ''hmac'') ?data))
             (dict_get ?data ''hmac'' (JStr [])) \<noteq> Inr True"
    by (simp add: dict_get_def)
  have c: "snd (oxapay_webhook ?en started (Some (JObj ?data))) = [Log WebhookReceived, Log HmacMismatch]"
    using v by (simp add: oxapay_webhook_def handle_payload_def signature_check_def dict_get_def)
  from invalid_signature_no_effect [OF a b, of started] a c
  show "truthy (dict_get ?data ''hmac'' (JStr [])) \<and>
     oxapay_webhook ?en started (Some (JObj ?data)) = (started, [Log WebhookReceived, Log HmacMismatch])"
    by (simp add: prod_eq_iff)
qed

text \<open>
  C2, as stated, fails: a payload may contain a signature that is the empty string. No
  digest has that hexadecimal form, so the signature does not verify, and yet the
  delivery is credited and its key recorded.
\<close>

theorem empty_signature_counterexample:
  "\<forall>h d. map_of ((''hmac'', JStr []) # sample_payload ''paid'') ''hmac'' = Some (JStr []) \<and>
     verify_signature (sample_env h d {12345}) (d (sample_payload ''paid'')) (JStr []) = Inr False \<and>
     oxapay_webhook (sample_env h d {12345}) started
        (Some (JObj ((''hmac'', JStr []) # sample_payload ''paid''))) =
     (started\<lparr>processed_orders := {KStr ''12345_1700000000''}\<rparr>,
      [Log WebhookReceived, AddProcessed (KStr ''12345_1700000000''),
       Credit 12345 (Fin (1 / 2)) ''BTC'', Log Credited,
       SendMessage 12345 (Fin (1 / 2)) ''BTC'' (Fin 50)])"
  by (simp add: verify_empty_signature) (simp add: webhook_defs)

subsection \<open>The pay amount\<close>

text \<open>
  C9. A payload with neither a \<^verbatim>\<open>payAmount\<close> nor a \<^verbatim>\<open>pay_amount\<close> field has the float of
  its \<^verbatim>\<open>amount\<close> field as pay amount, and where the delivery is credited (signature and
  status passed, a new key, an amount above zero, a resolved user with a wallet) the
  wallet receives that many units of the paid currency.
\<close>

theorem pay_amount_defaults_to_amount:
  assumes "map_of data ''payAmount'' = None"
    and "map_of data ''pay_amount'' = None"
    and "signature_check en data = Inr True"
    and "py_lower (dict_get data ''status'' (JStr [])) = Inr s"
    and "s \<in> set accepted_statuses"
    and "extract_payment data = Inr p"
    and "hash_key (dedup_key p) = Some k"
    and "k \<notin> processed_orders st"
    and "\<not> float_le (amount_usd p) (Fin 0)"
    and "resolve_telegram_id (order_id p) = Inr (Some u)"
    and "u \<in> user_wallets en"
  shows "py_float (dict_get data ''amount'' (JInt 0)) = Inr (amount_usd p) \<and>
         pay_amount p = amount_usd p \<and>
         Credit u (amount_usd p) (paid_coin p) \<in> set (snd (oxapay_webhook en st (Some (JObj data))))"
proof -
  have amount: "py_float (dict_get data ''amount'' (JInt 0)) = Inr (amount_usd p)"
    using assms(6) by (auto simp: extract_payment_def Let_def split: sum.splits if_splits)
  have pay: "pay_amount p = amount_usd p"
    using assms(1,2,6)
    by (auto simp: extract_payment_def dict_get_def Let_def split: sum.splits)
  have passed: "handle_payload en st data = guard_and_credit en st p"
    using handle_payload_passed [OF assms(3) assms(4) assms(5) assms(6)] .
  have pos: "\<not> float_le (pay_amount p) (Fin 0)"
    using assms(9) pay by simp
  have "Credit u (pay_amount p) (paid_coin p) \<in> set (snd (oxapay_webhook en st (Some (JObj data))))"
    by (simp add: oxapay_webhook_def passed
        guard_and_credit_credits [OF assms(7) assms(8) pos assms(10) assms(11)])
  with amount pay show ?thesis by simp
qed

theorem pay_amount_defaults_to_amount_witness:
  "\<forall>h d. map_of [(''status'', JStr ''paid''), (''orderId'', JStr ''12345_1700000000''),
               (''amount'', JFloat (Fin 50)), (''currency'', JStr ''usdt'')] ''payAmount'' = None \<and>
     Credit 12345 (Fin 50) ''USDT''
       \<in> set (snd (oxapay_webhook (sample_env h d {12345}) started
                 (Some (JObj [(''status'', JStr ''paid''), (''orderId'', JStr ''12345_1700000000''),
                    (''amount'', JFloat (Fin 50)), (''currency'', JStr ''usdt'')]))))"
proof (intro allI)
  fix h d
  let ?data = "[(''status'', JStr ''paid''), (''orderId'', JStr ''12345_1700000000''),
               (''amount'', JFloat (Fin 50)), (''currency'', JStr ''usdt'')]"
  let ?p = "\<lparr>order_id = JStr ''12345_1700000000'', track_id = JStr [], amount_usd = Fin 50,
             paid_coin = ''USDT'', pay_amount = Fin 50\<rparr>"
  have 1: "map_of ?data ''payAmount'' = None" by simp
  have 2: "map_of ?data ''pay_amount'' = None" by simp
  have 3: "signature_check (sample_env h d {12345}) ?data = Inr True" by (simp add: webhook_defs)
  have 4: "py_lower (dict_get ?data ''status'' (JStr [])) = Inr ''paid''" by (simp add: webhook_defs)
  have 5: "''paid'' \<in> set accepted_statuses" by (simp add: webhook_defs)
  have 6: "extract_payment ?data = Inr ?p" by (simp add: webhook_defs)
  have 7: "hash_key (dedup_key ?p) = Some (KStr ''12345_1700000000'')" by (simp add: webhook_defs)
  have 8: "KStr ''12345_1700000000'' \<notin> processed_orders started" by (simp add: webhook_defs)
  have 9: "\<not> float_le (amount_usd ?p) (Fin 0)" by simp
  have 10: "resolve_telegram_id (order_id ?p) = Inr (Some 12345)" by (simp add: webhook_defs)
  have 11: "12345 \<in> user_wallets (sample_env h d {12345})" by (simp add: webhook_defs)
  from pay_amount_defaults_to_amount [OF 1 2 3 4 5 6 7 8 9 10 11] 1
  show "map_of ?data ''payAmount'' = None \<and>
     Credit 12345 (Fin 50) ''USDT''
       \<in> set (snd (oxapay_webhook (sample_env h d {12345}) started (Some (JObj ?data))))"
    by simp
qed

subsection \<open>Rejections\<close>

text \<open>
  The rejections that return: a status that is not accepted, a pay amount that is not
  above zero, an order id that names no user. None of them credits or notifies.
\<close>

lemma guard_rejections_silent:
  assumes "float_le (pay_amount p) (Fin 0) \<or> resolve_telegram_id (order_id p) = Inr None"
  shows "\<not> list_ex is_credit (fst (snd (guard_and_credit en st p))) \<and>
         \<not> list_ex is_send_message (fst (snd (guard_and_credit en st p)))"
  using assms by (auto simp: guard_and_credit_def Let_def split: option.splits)

lemma early_rejections_silent:
  assumes "signature_check en data = Inr True"
    and "py_lower (dict_get data ''status'' (JStr [])) = Inr s"
    and "s \<notin> set accepted_statuses \<or>
         (\<exists>p. extract_payment data = Inr p \<and>
              (float_le (pay_amount p) (Fin 0) \<or> resolve_telegram_id (order_id p) = Inr None))"
  shows "\<not> list_ex is_credit (snd (oxapay_webhook en st (Some (JObj data)))) \<and>
         \<not> list_ex is_send_message (snd (oxapay_webhook en st (Some (JObj data)))) \<and>
         (\<exists>m. m \<noteq> WebhookReceived \<and> Log m \<in> set (snd (oxapay_webhook en st (Some (JObj data)))))"
proof (cases "s \<in> set accepted_statuses")
  case False
  then show ?thesis
    using assms(1,2) by (auto simp: oxapay_webhook_def handle_payload_def)
next
  case True
  with assms(3) obtain p where p: "extract_payment data = Inr p"
    and rej: "float_le (pay_amount p) (Fin 0) \<or> resolve_telegram_id (order_id p) = Inr None"
    by auto
  have passed: "handle_payload en st data = guard_and_credit en st p"
    using handle_payload_passed [OF assms(1) assms(2) True p] .
  obtain st' evs err where g: "guard_and_credit en st p = (st', evs, err)"
    by (cases "guard_and_credit en st p") auto
  have silent: "\<not> list_ex is_credit evs \<and> \<not> list_ex is_send_message evs"
    using guard_rejections_silent [OF rej, of en st] g by simp
  have logged: "(\<exists>m. m \<noteq> WebhookReceived \<and> Log m \<in> set evs) \<or> err \<noteq> None"
    using rej g by (auto simp: guard_and_credit_def Let_def split: option.splits if_splits)
  show ?thesis
    using silent logged
    by (cases err) (auto simp: oxapay_webhook_def passed g list_ex_iff)
qed

text \<open>
  C3 fails on the code for the user without a wallet. With \<^verbatim>\<open>_bot_ref\<close> set, as it is
  whenever the webhook server runs, the delivery for user 12345, who has no wallet record,
  logs the warning and credits nothing, and then falls through to the notification block:
  the user is sent the "Deposit Confirmed" message.
\<close>

theorem unknown_user_is_notified:
  "oxapay_webhook (sample_env h d {}) started (Some (JObj (sample_payload ''paid''))) =
     (started\<lparr>processed_orders := {KStr ''12345_1700000000''}\<rparr>,
      [Log WebhookReceived, AddProcessed (KStr ''12345_1700000000''), Log UserNotFound,
       SendMessage 12345 (Fin (1 / 2)) ''BTC'' (Fin 50)])"
  by (simp add: webhook_defs)

subsection \<open>The duplicate guard\<close>

text \<open>
  A delivery either leaves the set alone, and then neither inserts nor credits, or it
  carries a key the set does not hold, inserts it first, and credits at most once after.
\<close>

lemma guard_shape:
  "(fst (guard_and_credit en st p) = st \<and>
      \<not> list_ex is_credit (fst (snd (guard_and_credit en st p))) \<and>
      \<not> list_ex is_add (fst (snd (guard_and_credit en st p))))
   \<or> (\<exists>k tl. hash_key (dedup_key p) = Some k \<and> k \<notin> processed_orders st \<and>
        fst (guard_and_credit en st p) = st\<lparr>processed_orders := insert k (processed_orders st)\<rparr> \<and>
        fst (snd (guard_and_credit en st p)) = AddProcessed k # tl \<and>
        \<not> list_ex is_add tl \<and> length (filter is_credit tl) \<le> 1)"
  by (auto simp: guard_and_credit_def credit_and_notify_def Let_def
      split: sum.splits option.splits)

lemma handle_shape:
  "(fst (handle_payload en st data) = st \<and>
      \<not> list_ex is_credit (fst (snd (handle_payload en st data))) \<and>
      \<not> list_ex is_add (fst (snd (handle_payload en st data))))
   \<or> (\<exists>k tl. request_key (Some (JObj data)) = Some k \<and> k \<notin> processed_orders st \<and>
        fst (handle_payload en st data) = st\<lparr>processed_orders := insert k (processed_orders st)\<rparr> \<and>
        fst (snd (handle_payload en st data)) = AddProcessed k # tl \<and>
        \<not> list_ex is_add tl \<and> length (filter is_credit tl) \<le> 1)"
proof (cases "\<exists>p. extract_payment data = Inr p \<and> handle_payload en st data = guard_and_credit en st p")
  case False
  then have "fst (handle_payload en st data) = st \<and>
      \<not> list_ex is_credit (fst (snd (handle_payload en st data))) \<and>
      \<not> list_ex is_add (fst (snd (handle_payload en st data)))"
    by (auto simp: handle_payload_def split: sum.splits bool.splits if_splits)
  then show ?thesis by blast
next
  case True
  then obtain p where p: "extract_payment data = Inr p"
    and h: "handle_payload en st data = guard_and_credit en st p" by blast
  have key: "request_key (Some (JObj data)) = hash_key (dedup_key p)"
    using extract_payment_ids [OF p] by (simp add: request_key_def dedup_key_def)
  show ?thesis
    using guard_shape [of en st p] unfolding h key .
qed

lemma webhook_shape:
  "(fst (oxapay_webhook en st req) = st \<and>
      \<not> list_ex is_credit (snd (oxapay_webhook en st req)) \<and>
      \<not> list_ex is_add (snd (oxapay_webhook en st req)))
   \<or> (\<exists>k tl. request_key req = Some k \<and> k \<notin> processed_orders st \<and>
        fst (oxapay_webhook en st req) = st\<lparr>processed_orders := insert k (processed_orders st)\<rparr> \<and>
        snd (oxapay_webhook en st req) = Log WebhookReceived # AddProcessed k # tl \<and>
        \<not> list_ex is_add tl \<and> length (filter is_credit tl) \<le> 1)"
proof (cases "\<exists>data. req = Some (JObj data)")
  case False
  then show ?thesis
    by (auto simp: oxapay_webhook_def split: option.splits jvalue.splits)
next
  case True
  then obtain data where req: "req = Some (JObj data)" by blast
  obtain st' evs err where h: "handle_payload en st data = (st', evs, err)"
    by (cases "handle_payload en st data") auto
  have w: "oxapay_webhook en st (Some (JObj data)) =
      (st', Log WebhookReceived # evs @ (case err of None \<Rightarrow> [] | Some e \<Rightarrow> [Log (WebhookException e)]))"
    by (simp add: oxapay_webhook_def h)
  from handle_shape [of en st data] show ?thesis
    unfolding req h w by (cases err) auto
qed


lemma deliver_all_bounds:
  "insertions_of k (snd (deliver_all st ds)) \<le> (if k \<in> processed_orders st then 0 else 1) \<and>
   credits_with_key k ds (snd (deliver_all st ds)) \<le> insertions_of k (snd (deliver_all st ds))"
proof (induction ds arbitrary: st)
  case Nil
  show ?case by (simp add: insertions_of_def credits_with_key_def)
next
  case (Cons d ds)
  obtain st' evs where w: "oxapay_webhook (fst d) st (snd d) = (st', evs)"
    by (cases "oxapay_webhook (fst d) st (snd d)") auto
  obtain st'' evss where r: "deliver_all st' ds = (st'', evss)"
    by (cases "deliver_all st' ds") auto
  have ih: "insertions_of k evss \<le> (if k \<in> processed_orders st' then 0 else 1) \<and>
            credits_with_key k ds evss \<le> insertions_of k evss"
    using Cons.IH [of st'] r by simp
  have step: "snd (deliver_all st (d # ds)) = evs # evss"
    by (simp add: w r)
  have ins: "insertions_of k (evs # evss) = count_list evs (AddProcessed k) + insertions_of k evss"
    by (simp add: insertions_of_def)
  have cr: "credits_with_key k (d # ds) (evs # evss) =
      (if request_key (snd d) = Some k then length (filter is_credit evs) else 0)
      + credits_with_key k ds evss"
    by (simp add: credits_with_key_def)
  from webhook_shape [of "fst d" st "snd d"] show ?case
  proof
    assume q: "fst (oxapay_webhook (fst d) st (snd d)) = st \<and>
      \<not> list_ex is_credit (snd (oxapay_webhook (fst d) st (snd d))) \<and>
      \<not> list_ex is_add (snd (oxapay_webhook (fst d) st (snd d)))"
    then have "st' = st" "filter is_credit evs = []" "count_list evs (AddProcessed k) = 0"
      using w by (auto simp: list_ex_iff filter_empty_conv count_list_0_iff)
    then show ?thesis using ih unfolding step ins cr by simp
  next
    assume "\<exists>k tl. request_key (snd d) = Some k \<and> k \<notin> processed_orders st \<and>
        fst (oxapay_webhook (fst d) st (snd d)) = st\<lparr>processed_orders := insert k (processed_orders st)\<rparr> \<and>
        snd (oxapay_webhook (fst d) st (snd d)) = Log WebhookReceived # AddProcessed k # tl \<and>
        \<not> list_ex is_add tl \<and> length (filter is_credit tl) \<le> 1"
    then obtain k' tl where k': "request_key (snd d) = Some k'" "k' \<notin> processed_orders st"
      "st' = st\<lparr>processed_orders := insert k' (processed_orders st)\<rparr>"
      "evs = Log WebhookReceived # AddProcessed k' # tl"
      "\<not> list_ex is_add tl" "length (filter is_credit tl) \<le> 1"
      using w by auto
    have tl0: "count_list tl (AddProcessed k) = 0"
      using k'(5) by (auto simp: count_list_0_iff list_ex_iff)
    show ?thesis
    proof (cases "k' = k")
      case True
      then show ?thesis using ih k' tl0 unfolding step ins cr by simp
    next
      case False
      then show ?thesis using ih k' tl0 unfolding step ins cr by auto
    qed
  qed
qed

lemma deliver_all_order:
  "list_all (\<lambda>(d, evs). insert_before_credit (snd d) evs) (zip ds (snd (deliver_all st ds)))"
proof (induction ds arbitrary: st)
  case Nil
  show ?case by simp
next
  case (Cons d ds)
  obtain st' evs where w: "oxapay_webhook (fst d) st (snd d) = (st', evs)"
    by (cases "oxapay_webhook (fst d) st (snd d)") auto
  obtain st'' evss where r: "deliver_all st' ds = (st'', evss)"
    by (cases "deliver_all st' ds") auto
  have "insert_before_credit (snd d) evs"
    using webhook_shape [of "fst d" st "snd d"] w
    by (auto simp: insert_before_credit_def list_ex_iff split: option.splits dest: set_takeWhileD)
  moreover have "list_all (\<lambda>(d, evs). insert_before_credit (snd d) evs) (zip ds evss)"
    using Cons.IH [of st'] r by simp
  ultimately show ?case by (simp add: w r)
qed

text \<open>
  C1. In every run of deliveries, from any state of the processed-order set and whatever
  each delivery holds: the deliveries that carry the key \<open>k\<close> make at most one call of
  \<^verbatim>\<open>_credit\<close> between them, \<open>k\<close> is inserted into the set at most once, and in each
  delivery no credit stands before the insertion of the key it carries.
\<close>

theorem at_most_one_credit_per_key:
  "credits_with_key k ds (snd (deliver_all st ds)) \<le> 1 \<and>
   insertions_of k (snd (deliver_all st ds)) \<le> 1 \<and>
   list_all (\<lambda>(d, evs). insert_before_credit (snd d) evs) (zip ds (snd (deliver_all st ds)))"
proof -
  have "insertions_of k (snd (deliver_all st ds)) \<le> 1"
    using deliver_all_bounds [of k st ds] by (simp split: if_splits)
  moreover have "credits_with_key k ds (snd (deliver_all st ds)) \<le> 1"
    using deliver_all_bounds [of k st ds] by (simp split: if_splits)
  ultimately show ?thesis
    using deliver_all_order [of ds st] by simp
qed

text \<open>The same payment delivered twice: the second delivery stops at the guard.\<close>

lemma retried_delivery:
  "deliver_all started
     [(sample_env h d {12345}, Some (JObj (sample_payload ''paid''))),
      (sample_env h d {12345}, Some (JObj (sample_payload ''paid'')))] =
   (started\<lparr>processed_orders := {KStr ''12345_1700000000''}\<rparr>,
    [[Log WebhookReceived, AddProcessed (KStr ''12345_1700000000''),
      Credit 12345 (Fin (1 / 2)) ''BTC'', Log Credited,
      SendMessage 12345 (Fin (1 / 2)) ''BTC'' (Fin 50)],
     [Log WebhookReceived, Log (DuplicateCallback (KStr ''12345_1700000000''))]])"
  by (simp add: webhook_defs)

subsection \<open>The order reference\<close>

declare digits_of.simps [simp del]

lemma digit_char_table:
  "list_all (\<lambda>n. is_digit (digit_char n) \<and> digit_val (digit_char n) = n) [0..<10]"
  by (simp add: upt_rec digit_char_def is_digit_def digit_val_def)

lemma digit_char_props:
  "n < 10 \<Longrightarrow> is_digit (digit_char n) \<and> digit_val (digit_char n) = n"
  using digit_char_table by (simp add: list_all_iff)

lemma digits_of_digits: "digits_of n \<noteq> [] \<and> list_all is_digit (digits_of n)"
proof (induction n rule: digits_of.induct)
  case (1 n)
  show ?case
  proof (cases "n < 10")
    case True
    then show ?thesis by (subst (1 2) digits_of.simps) (simp add: digit_char_props)
  next
    case False
    then show ?thesis using "1.IH"
      by (subst (1 2) digits_of.simps) (simp add: digit_char_props)
  qed
qed

lemma int_of_digits_snoc: "int_of_digits (ds @ [c]) = 10 * int_of_digits ds + int (digit_val c)"
  by (simp add: int_of_digits_def)

lemma int_of_digits_of: "int_of_digits (digits_of n) = int n"
proof (induction n rule: digits_of.induct)
  case (1 n)
  show ?case
  proof (cases "n < 10")
    case True
    then show ?thesis
      by (subst digits_of.simps) (simp add: int_of_digits_def digit_char_props)
  next
    case False
    then have "int_of_digits (digits_of n) = 10 * int (n div 10) + int (n mod 10)"
      using "1.IH" by (subst digits_of.simps) (simp add: int_of_digits_snoc digit_char_props)
    also have "\<dots> = int (10 * (n div 10) + n mod 10)"
      by (simp only: of_nat_add of_nat_mult of_nat_numeral)
    also have "\<dots> = int n" by simp
    finally show ?thesis .
  qed
qed

lemma underscore_not_digit: "\<not> is_digit CHR ''_''"
  by (simp add: is_digit_def)

text \<open>
  C6. The order reference built for the Telegram user \<open>user_id\<close> (user ids are positive;
  the decimal form of a negative int starts with a minus sign, which is no digit) at any
  timestamp is resolved by the webhook handler to that \<open>user_id\<close>.
\<close>

theorem order_reference_round_trip:
  assumes "0 \<le> user_id"
  shows "resolve_telegram_id (JStr (order_reference user_id timestamp)) = Inr (Some user_id)"
proof -
  let ?ds = "digits_of (nat user_id)"
  have ref: "order_reference user_id timestamp = ?ds @ CHR ''_'' # str_of_int timestamp"
    using assms by (simp add: order_reference_def str_of_int_def)
  have digits: "\<forall>c \<in> set ?ds. c \<noteq> CHR ''_''"
    using digits_of_digits [of "nat user_id"] underscore_not_digit
    by (auto simp: list_all_iff)
  have prefix: "takeWhile (\<lambda>c. c \<noteq> CHR ''_'') (order_reference user_id timestamp) = ?ds"
    unfolding ref using digits by (simp add: takeWhile_append2)
  have "order_prefix (JStr (order_reference user_id timestamp)) = Inr ?ds"
    using prefix by (simp add: ref)
  moreover have "str_isdigit ?ds"
    using digits_of_digits [of "nat user_id"] by (simp add: str_isdigit_def)
  moreover have "int_of_digits ?ds = user_id"
    using assms by (simp add: int_of_digits_of)
  ultimately show ?thesis
    by (simp add: resolve_telegram_id_def)
qed

lemma order_reference_example: "order_reference 12345 1700000000 = ''12345_1700000000''"
  by (simp add: order_reference_def str_of_int_def digits_of.simps digit_char_def)

theorem order_reference_round_trip_witness:
  "(0::int) \<le> 12345 \<and> order_reference 12345 1700000000 = ''12345_1700000000'' \<and>
   resolve_telegram_id (JStr (order_reference 12345 1700000000)) = Inr (Some 12345)"
  using order_reference_round_trip [of 12345 1700000000] order_reference_example by simp

subsection \<open>Invoice creation\<close>

lemma create_invoice_result:
  "fst (create_invoice post n) =
     (case post n of
        Response status (Some (JObj data)) \<Rightarrow>
          if status = 200 \<and> py_eq_100 (dict_get data ''result'' JNull) then Some data else None
      | _ \<Rightarrow> None)"
  by (simp add: create_invoice_def split: http_outcome.splits option.splits jvalue.splits)

lemma truthy_pay_link_of:
  "truthy (pay_link_of data) =
     (truthy (dict_get data ''payLink'' JNull) \<or> truthy (dict_get data ''payUrl'' JNull) \<or>
      truthy (dict_get data ''link'' JNull))"
  by (auto simp: pay_link_of_def py_or_def dict_get_def split: option.splits)

text \<open>
  C5. An invoice request sends one POST, whatever a second one would bring. The user is
  shown a payment link exactly when that POST succeeds in the sense of
  \<open>invoice_succeeds\<close>: status 200, result code 100 and a link under \<^verbatim>\<open>payLink\<close>,
  \<^verbatim>\<open>payUrl\<close> or \<^verbatim>\<open>link\<close>, taken in that order. On a transport error, a timeout,
  another status or another result code \<^verbatim>\<open>create_invoice\<close> returns \<^verbatim>\<open>None\<close>; where the
  link is missing it returns the response and its caller ends the flow with a failure
  message.
\<close>

theorem invoice_needs_success_and_link:
  assumes "owner"
    and "str_upper (remove_all ''oxapay_cur_'' query_data) \<in> set OXAPAY_SUPPORTED_CURRENCIES"
  shows "snd (create_invoice post n) = Suc n \<and>
         snd (oxapay_currency_selected post n owner query_data) = Suc n \<and>
         (if invoice_succeeds (post n)
          then \<exists>data. post n = Response 200 (Some (JObj data)) \<and>
                 fst (create_invoice post n) = Some data \<and>
                 fst (oxapay_currency_selected post n owner query_data) =
                   (END, InvoiceReady (pay_link_of data))
          else fst (oxapay_currency_selected post n owner query_data)
                 \<in> {(END, FailedToCreateInvoice), (END, NoPaymentLink)})"
proof -
  have one: "snd (create_invoice post n) = Suc n"
    by (simp add: create_invoice_def)
  obtain result where c: "create_invoice post n = (result, Suc n)"
    using one by (cases "create_invoice post n") auto
  have res: "result = (case post n of
        Response status (Some (JObj data)) \<Rightarrow>
          if status = 200 \<and> py_eq_100 (dict_get data ''result'' JNull) then Some data else None
      | _ \<Rightarrow> None)"
    using create_invoice_result [of post n] c by simp
  have sel: "oxapay_currency_selected post n owner query_data =
      (case result of
         None \<Rightarrow> ((END, FailedToCreateInvoice), Suc n)
       | Some r \<Rightarrow> if \<not> truthy (pay_link_of r) then ((END, NoPaymentLink), Suc n)
                   else ((END, InvoiceReady (pay_link_of r)), Suc n))"
    using assms by (simp add: oxapay_currency_selected_def c Let_def split: option.splits)
  show ?thesis
  proof (cases "invoice_succeeds (post n)")
    case True
    then obtain data where d: "post n = Response 200 (Some (JObj data))"
      and ok: "py_eq_100 (dict_get data ''result'' JNull)" and link: "truthy (pay_link_of data)"
      by (auto simp: invoice_succeeds_def truthy_pay_link_of
          split: http_outcome.splits option.splits jvalue.splits)
    have "result = Some data" using res d ok by simp
    then show ?thesis using True one d link sel c by auto
  next
    case False
    have "fst (oxapay_currency_selected post n owner query_data)
            \<in> {(END, FailedToCreateInvoice), (END, NoPaymentLink)}"
    proof (cases result)
      case None
      then show ?thesis by (simp add: sel)
    next
      case (Some r)
      then have "\<exists>status. post n = Response status (Some (JObj r)) \<and> status = 200 \<and>
          py_eq_100 (dict_get r ''result'' JNull)"
        using res by (auto split: http_outcome.splits option.splits jvalue.splits if_splits)
      then have "\<not> truthy (pay_link_of r)"
        using False by (auto simp: invoice_succeeds_def truthy_pay_link_of)
      then show ?thesis by (simp add: sel Some)
    qed
    then show ?thesis using False one sel by (auto split: option.splits)
  qed
qed

lemmas invoice_defs =
  create_invoice_def oxapay_currency_selected_def sample_post_def pay_link_of_def
  invoice_succeeds_def py_or_def dict_get_def str_upper_def upper_char_def lower_letters_def
  upper_letters_def OXAPAY_SUPPORTED_CURRENCIES_def

theorem invoice_needs_success_and_link_witness:
  "str_upper (remove_all ''oxapay_cur_'' ''oxapay_cur_btc'') \<in> set OXAPAY_SUPPORTED_CURRENCIES \<and>
   \<not> invoice_succeeds (sample_post 0) \<and>
   snd (oxapay_currency_selected sample_post 0 True ''oxapay_cur_btc'') = 1 \<and>
   fst (oxapay_currency_selected sample_post 0 True ''oxapay_cur_btc'') = (END, FailedToCreateInvoice) \<and>
   invoice_succeeds (sample_post 1) \<and>
   oxapay_currency_selected sample_post 1 True ''oxapay_cur_btc'' =
     ((END, InvoiceReady (JStr ''https://pay.example/i/1'')), 2)"
proof -
  have coin: "str_upper (remove_all ''oxapay_cur_'' ''oxapay_cur_btc'') \<in> set OXAPAY_SUPPORTED_CURRENCIES"
    by (simp add: invoice_defs)
  have f0: "\<not> invoice_succeeds (sample_post 0)"
    by (simp add: invoice_defs)
  have e0: "fst (oxapay_currency_selected sample_post 0 True ''oxapay_cur_btc'') = (END, FailedToCreateInvoice)"
    by (simp add: invoice_defs)
  have s1: "invoice_succeeds (sample_post 1)"
    by (simp add: invoice_defs)
  have e1: "oxapay_currency_selected sample_post 1 True ''oxapay_cur_btc'' =
     ((END, InvoiceReady (JStr ''https://pay.example/i/1'')), 2)"
    by (simp add: invoice_defs)
  from invoice_needs_success_and_link [OF TrueI coin, of sample_post 0]
  have "snd (oxapay_currency_selected sample_post 0 True ''oxapay_cur_btc'') = 1"
    by simp
  then show ?thesis using coin f0 e0 s1 e1 by simp
qed

text \<open>A response with the result code and no link: the caller reports the failure.\<close>

lemma missing_link_example:
  "fst (create_invoice sample_post 2) = Some [(''result'', JInt 100), (''trackId'', JStr ''77'')] \<and>
   oxapay_currency_selected sample_post 2 True ''oxapay_cur_btc'' = ((END, NoPaymentLink), 3)"
  by (simp add: invoice_defs)

subsection \<open>The custom amount\<close>

lemma float_of_str_nan: "float_of_str ''nan'' = Some NaN"
  by (simp add: float_of_str_def strip_with_def take_sign_def c_space_def str_lower_def
      lower_char_def lower_letters_def upper_letters_def)

text \<open>
  C7 fails on the code for the text \<^verbatim>\<open>nan\<close>. It parses as a float, the test
  \<^verbatim>\<open>amount < OXAPAY_MIN_DEPOSIT_USD\<close> is false for a NaN, and the flow goes on to the
  currency selection with a NaN stored as the amount.
\<close>

theorem nan_amount_is_accepted:
  "oxapay_receive_custom_amount OXAPAY_MIN_DEPOSIT_USD ud (Some ''nan'') =
     (STATE_CURRENCY, CurrencySelector NaN,
      ud\<lparr>oxapay_usd_amount := Some NaN, oxapay_awaiting_custom := False\<rparr>)"
  by (simp add: oxapay_receive_custom_amount_def OXAPAY_MIN_DEPOSIT_USD_def float_of_str_nan
      strip_with_def str_space_def)

text \<open>
  What the step does otherwise: a text that is no float, or a float below the minimum,
  is answered with the error message in the same state; a finite float at or above the
  minimum is stored and the currency selection follows.
\<close>

lemma custom_amount_stays_iff:
  "(fst (oxapay_receive_custom_amount m ud t) = STATE_CUSTOM) =
     (case float_of_str (filter (\<lambda>c. c \<noteq> CHR '','')
             (strip_with str_space (case t of None \<Rightarrow> [] | Some x \<Rightarrow> x))) of
        None \<Rightarrow> True
      | Some a \<Rightarrow> float_lt a m)"
  by (simp add: oxapay_receive_custom_amount_def Let_def split: option.splits)

lemma custom_amount_finite:
  assumes "float_of_str (filter (\<lambda>c. c \<noteq> CHR '','')
             (strip_with str_space (case t of None \<Rightarrow> [] | Some x \<Rightarrow> x))) = Some (Fin q)"
  shows "oxapay_receive_custom_amount (Fin m) ud t =
     (if q < m then (STATE_CUSTOM, InvalidAmount, ud)
      else (STATE_CURRENCY, CurrencySelector (Fin q),
            ud\<lparr>oxapay_usd_amount := Some (Fin q), oxapay_awaiting_custom := False\<rparr>))"
  using assms by (simp add: oxapay_receive_custom_amount_def Let_def)

lemma custom_amount_unparsed:
  assumes "float_of_str (filter (\<lambda>c. c \<noteq> CHR '','')
             (strip_with str_space (case t of None \<Rightarrow> [] | Some x \<Rightarrow> x))) = None"
  shows "oxapay_receive_custom_amount m ud t = (STATE_CUSTOM, InvalidAmount, ud)"
  using assms by (simp add: oxapay_receive_custom_amount_def Let_def)

lemma custom_amount_examples:
  "oxapay_receive_custom_amount OXAPAY_MIN_DEPOSIT_USD ud (Some ''abc'') = (STATE_CUSTOM, InvalidAmount, ud)"
  "oxapay_receive_custom_amount OXAPAY_MIN_DEPOSIT_USD ud (Some ''3'') = (STATE_CUSTOM, InvalidAmount, ud)"
  by code_simp+

end
